theory Spec2Isabelle
  imports Main "HOL-Library.Word"
begin

unbundle bit_operations_syntax

section \<open>Values of the JavaScript runtime\<close>

text \<open>
  A \<open>Uint8Array\<close> is a list of 8-bit words. A \<open>bigint\<close> is an \<open>int\<close>: on \<open>int\<close>,
  \<open>AND\<close>, \<open>OR\<close>, \<open>push_bit\<close> and \<open>drop_bit\<close> are the two's-complement operations
  \<open>&\<close>, \<open>|\<close>, \<open><<\<close> and \<open>>>\<close> of a JavaScript \<open>bigint\<close>. The \<open>number\<close> arguments of the
  SDK that carry integers (salary, period, amount, durationDays, times in
  milliseconds) are \<open>int\<close> as well; where the code converts a caller's number with
  \<open>BigInt\<close> before it changes the store (\<open>newSalary\<close> of \<open>updateSalary\<close>), the
  argument is a \<open>number\<close>, which need not be an integer. Strings are lists of 8-bit
  characters.

  A thrown value is an \<open>error\<close>: the \<open>name\<close> of the error object (\<open>Error\<close>, \<open>TypeError\<close>,
  \<open>RangeError\<close>, \<open>SyntaxError\<close>) and its message. A function that can throw returns
  \<open>error + 'a\<close>, with \<open>Inl\<close> for the thrown error.
\<close>

type_synonym bytes = "8 word list"

datatype error = JSError (errorName: string) (errorMessage: string)

text \<open>\<open>String(error)\<close> and \<open>`${error}`\<close>: \<open>Error.prototype.toString\<close>.\<close>

definition errorToString :: "error \<Rightarrow> string" where
  "errorToString e =
     (if errorName e = [] then errorMessage e
      else if errorMessage e = [] then errorName e
      else errorName e @ '': '' @ errorMessage e)"

definition bindE :: "error + 'a \<Rightarrow> ('a \<Rightarrow> error + 'b) \<Rightarrow> error + 'b" where
  "bindE r f = (case r of Inl e \<Rightarrow> Inl e | Inr v \<Rightarrow> f v)"

subsection \<open>\<open>BigInt(number)\<close>\<close>

text \<open>
  A \<open>number\<close> is an integer or it is not (a fraction, \<open>NaN\<close>, an infinity);
  \<open>BigInt\<close> of a number that is not an integer throws a \<open>RangeError\<close>.
\<close>

datatype number = Integral int | NonIntegral

definition BigInt_number :: "number \<Rightarrow> error + int" where
  "BigInt_number n =
     (case n of
        Integral v \<Rightarrow> Inr v
      | NonIntegral \<Rightarrow>
          Inl (JSError ''RangeError''
                 ''The number cannot be converted to a BigInt because it is not an integer''))"

subsection \<open>\<open>BigInt(string)\<close> and \<open>bigint.toString()\<close>\<close>

text \<open>
  \<open>StringToBigInt\<close> of the language standard: white space is trimmed, the empty string
  is \<open>0n\<close>, then an optionally signed run of decimal digits, or an unsigned run of
  binary, octal or hexadecimal digits after \<open>0b\<close>, \<open>0o\<close>, \<open>0x\<close>; anything else is a
  \<open>SyntaxError\<close>. The white-space characters are those below U+0100.
\<close>

definition isStrWhiteSpaceChar :: "char \<Rightarrow> bool" where
  "isStrWhiteSpaceChar ch = ((of_char ch :: nat) \<in> {9, 10, 11, 12, 13, 32, 160})"

definition trimString :: "string \<Rightarrow> string" where
  "trimString s = rev (dropWhile isStrWhiteSpaceChar (rev (dropWhile isStrWhiteSpaceChar s)))"

definition digitValue :: "char \<Rightarrow> nat option" where
  "digitValue ch = (let n = (of_char ch :: nat) in
     if 48 \<le> n \<and> n \<le> 57 then Some (n - 48)
     else if 97 \<le> n \<and> n \<le> 102 then Some (n - 87)
     else if 65 \<le> n \<and> n \<le> 70 then Some (n - 55)
     else None)"

fun parseDigits :: "nat \<Rightarrow> nat \<Rightarrow> string \<Rightarrow> nat option" where
  "parseDigits radix acc [] = Some acc"
| "parseDigits radix acc (ch # cs) =
     (case digitValue ch of
        None \<Rightarrow> None
      | Some d \<Rightarrow> if d < radix then parseDigits radix (acc * radix + d) cs else None)"

definition parseDigitString :: "nat \<Rightarrow> string \<Rightarrow> nat option" where
  "parseDigitString radix s = (if s = [] then None else parseDigits radix 0 s)"

definition StringToBigInt :: "string \<Rightarrow> int option" where
  "StringToBigInt str =
     (case trimString str of
        [] \<Rightarrow> Some 0
      | ch # rest \<Rightarrow>
          if ch = CHR ''+'' then map_option int (parseDigitString 10 rest)
          else if ch = CHR ''-'' then map_option (\<lambda>n. - int n) (parseDigitString 10 rest)
          else if ch = CHR ''0'' \<and> rest \<noteq> [] \<and> hd rest \<in> {CHR ''x'', CHR ''X''}
            then map_option int (parseDigitString 16 (tl rest))
          else if ch = CHR ''0'' \<and> rest \<noteq> [] \<and> hd rest \<in> {CHR ''o'', CHR ''O''}
            then map_option int (parseDigitString 8 (tl rest))
          else if ch = CHR ''0'' \<and> rest \<noteq> [] \<and> hd rest \<in> {CHR ''b'', CHR ''B''}
            then map_option int (parseDigitString 2 (tl rest))
          else map_option int (parseDigitString 10 (ch # rest)))"

definition BigInt_string :: "string \<Rightarrow> error + int" where
  "BigInt_string str =
     (case StringToBigInt str of
        None \<Rightarrow> Inl (JSError ''SyntaxError'' (''Cannot convert '' @ str @ '' to a BigInt''))
      | Some v \<Rightarrow> Inr v)"

definition digitChar :: "nat \<Rightarrow> char" where
  "digitChar d = char_of (48 + d)"

fun natToString :: "nat \<Rightarrow> string" where
  "natToString n =
     (if n < 10 then [digitChar n] else natToString (n div 10) @ [digitChar (n mod 10)])"

definition toString :: "int \<Rightarrow> string" where
  "toString v = (if v < 0 then CHR ''-'' # natToString (nat (- v)) else natToString (nat v))"

subsection \<open>Typed arrays\<close>

text \<open>
  \<open>target.set(source, offset)\<close> copies \<open>source\<close> into \<open>target\<close> and throws a
  \<open>RangeError\<close> when it does not fit; \<open>bytes.slice(start, end)\<close> for
  \<open>0 \<le> start \<le> end\<close> stops at the end of the array.
\<close>

definition typedArray_set :: "bytes \<Rightarrow> bytes \<Rightarrow> nat \<Rightarrow> error + bytes" where
  "typedArray_set target source offset =
     (if offset + length source > length target
      then Inl (JSError ''RangeError'' ''offset is out of bounds'')
      else Inr (take offset target @ source @ drop (offset + length source) target))"

definition slice :: "bytes \<Rightarrow> nat \<Rightarrow> nat \<Rightarrow> bytes" where
  "slice bs start end = drop start (take end bs)"

section \<open>crypto/commitment.ts\<close>

text \<open>
  The Poseidon instance of \<open>circomlibjs\<close> is a parameter: \<open>buildPoseidon\<close> is the
  function that maps the inputs to \<open>poseidon.F.toObject(poseidon(inputs))\<close>. The
  module variable \<open>poseidonInstance\<close> is \<open>None\<close> until the first call of
  \<open>getPoseidon\<close>, which returns the instance together with the variable's new value.
\<close>

type_synonym poseidon = "int list \<Rightarrow> int"

definition getPoseidon :: "poseidon \<Rightarrow> poseidon option \<Rightarrow> poseidon \<times> poseidon option" where
  "getPoseidon buildPoseidon poseidonInstance =
     (case poseidonInstance of
        None \<Rightarrow> (buildPoseidon, Some buildPoseidon)
      | Some p \<Rightarrow> (p, Some p))"

definition bytesToBigInt :: "bytes \<Rightarrow> int" where
  "bytesToBigInt bs = foldl (\<lambda>result b. push_bit 8 result OR uint b) 0 bs"

fun bigIntToBytes_loop :: "nat \<Rightarrow> int \<Rightarrow> bytes \<Rightarrow> bytes" where
  "bigIntToBytes_loop 0 temp bs = bs"
| "bigIntToBytes_loop (Suc i) temp bs =
     bigIntToBytes_loop i (drop_bit 8 temp) (bs[i := word_of_int (temp AND 255)])"

text \<open>The loop runs \<open>i\<close> from 31 down to 0 over a fresh 32-byte array.\<close>

definition bigIntToBytes :: "int \<Rightarrow> bytes" where
  "bigIntToBytes v = bigIntToBytes_loop 32 v (replicate 32 0)"

function areEqual_loop :: "nat \<Rightarrow> bytes \<Rightarrow> bytes \<Rightarrow> bool" where
  "areEqual_loop i xs ys =
     (if i < length xs
      then (if xs ! i \<noteq> ys ! i then False else areEqual_loop (Suc i) xs ys)
      else True)"
  by pat_completeness auto
termination
  by (relation "measure (\<lambda>(i, xs, ys). length xs - i)") auto

definition areEqual :: "bytes \<Rightarrow> bytes \<Rightarrow> bool" where
  "areEqual xs ys = (if length xs \<noteq> length ys then False else areEqual_loop 0 xs ys)"

definition generateCommitment ::
  "poseidon \<Rightarrow> poseidon option \<Rightarrow> int \<Rightarrow> bytes \<Rightarrow> bytes \<times> poseidon option" where
  "generateCommitment buildPoseidon poseidonInstance salary blindingFactor =
     (let (poseidon, inst) = getPoseidon buildPoseidon poseidonInstance;
          salaryBigInt = salary;
          blindingBigInt = bytesToBigInt blindingFactor;
          hash = poseidon [salaryBigInt, blindingBigInt]
      in (bigIntToBytes hash, inst))"

text \<open>
  \<open>generateCommitment\<close> above is the function on integer salaries. On a \<open>number\<close> that
  need not be an integer, the same body gets the Poseidon instance and then throws at
  \<open>BigInt(salary)\<close>: that is \<open>generateCommitment_number\<close>.
\<close>

definition generateCommitment_number ::
  "poseidon \<Rightarrow> poseidon option \<Rightarrow> number \<Rightarrow> bytes \<Rightarrow> (error + bytes) \<times> poseidon option" where
  "generateCommitment_number buildPoseidon poseidonInstance salary blindingFactor =
     (let (poseidon, inst) = getPoseidon buildPoseidon poseidonInstance
      in case BigInt_number salary of
           Inl e \<Rightarrow> (Inl e, inst)
         | Inr salaryBigInt \<Rightarrow>
             (let blindingBigInt = bytesToBigInt blindingFactor;
                  hash = poseidon [salaryBigInt, blindingBigInt]
              in (Inr (bigIntToBytes hash), inst)))"

definition verifyCommitment ::
  "poseidon \<Rightarrow> poseidon option \<Rightarrow> bytes \<Rightarrow> int \<Rightarrow> bytes \<Rightarrow> bool \<times> poseidon option" where
  "verifyCommitment buildPoseidon poseidonInstance commitment salary blindingFactor =
     (let (computed, inst) = generateCommitment buildPoseidon poseidonInstance salary blindingFactor
      in (areEqual commitment computed, inst))"

definition generateNullifier ::
  "poseidon \<Rightarrow> poseidon option \<Rightarrow> bytes \<Rightarrow> int \<Rightarrow> bytes \<Rightarrow> bytes \<times> poseidon option" where
  "generateNullifier buildPoseidon poseidonInstance commitment period secret =
     (let (poseidon, inst) = getPoseidon buildPoseidon poseidonInstance;
          commitmentBigInt = bytesToBigInt commitment;
          periodBigInt = period;
          secretBigInt = bytesToBigInt secret;
          hash = poseidon [commitmentBigInt, periodBigInt, secretBigInt]
      in (bigIntToBytes hash, inst))"

section \<open>crypto/groth16.ts\<close>

subsection \<open>Data\<close>

text \<open>
  The points of a \<open>snarkjs\<close> proof are the tuples of the source: a G1 point is
  \<open>[string, string, string]\<close>, a G2 point three pairs of strings. Record fields carry
  a prefix naming their interface (\<open>proof_a\<close> is the field \<open>a\<close> of \<open>Groth16Proof\<close>,
  \<open>gp_salary\<close> the field \<open>salary\<close> of \<open>GenerateProofParams\<close>).
\<close>

type_synonym G1Point = "string \<times> string \<times> string"
type_synonym G2Point = "(string \<times> string) \<times> (string \<times> string) \<times> (string \<times> string)"

record SnarkProof =
  pi_a :: G1Point
  pi_b :: G2Point
  pi_c :: G1Point

record Groth16Proof =
  proof_a :: bytes
  proof_b :: bytes
  proof_c :: bytes
  proof_nullifier :: bytes

record GenerateProofParams =
  gp_salary :: int
  gp_blindingFactor :: bytes
  gp_recipient :: string
  gp_commitment :: bytes

record CircuitInputs =
  ci_salary :: string
  ci_blindingFactor :: string
  ci_commitment :: string
  ci_nullifier :: string
  ci_recipientHash :: string

record PublicInputs =
  pub_commitment :: bytes
  pub_nullifier :: bytes
  pub_recipientHash :: string

subsection \<open>The ledger objects of the Stellar SDK\<close>

text \<open>
  What the client builds with \<open>@stellar/stellar-sdk\<close> is kept as data: the contract
  call with its arguments, and the transaction built around it.
\<close>

datatype scopeValue = FullCompany | AggregateOnly | TimeRange int int

datatype arg = ArgString string | ArgNumber int | ArgBytes bytes | ArgScope scopeValue

datatype contract = Contract (contractAddress: string)

datatype operation = InvokeContract string string "arg list"

datatype account = Account (accountId: string) (sequenceNumber: string)

record transaction =
  tx_source :: account
  tx_fee :: string
  tx_networkPassphrase :: string
  tx_operation :: operation
  tx_timeout :: int
  tx_signers :: "string list"

subsection \<open>The world outside the SDK\<close>

text \<open>
  Every call that leaves the SDK is recorded as an \<open>event\<close>, in order. What the
  outside answers (the clock, the random generator, the prover and verifier of
  \<open>snarkjs\<close>, the RPC server) is a field of \<open>env\<close> that takes the events so far: an
  answer may depend on everything that happened before, and the theorems hold for
  every \<open>env\<close>. The constructors of the Stellar SDK compute no answer of their own;
  \<open>env\<close> only says when they throw. \<open>env\<close> also holds the fields the client's
  constructor sets.
\<close>

datatype event =
    DateNow
  | RandomBytes
  | FullProve CircuitInputs string string
  | Groth16Verify string "string list" SnarkProof
  | ConsoleError string
  | ConsoleWarn string
  | GetAccount string
  | SimulateTransaction transaction
  | SendTransaction transaction

record env =
  buildPoseidon :: poseidon
  dateNow :: "event list \<Rightarrow> int"
  randomBytes :: "event list \<Rightarrow> bytes"
  fullProve :: "event list \<Rightarrow> CircuitInputs \<Rightarrow> string \<Rightarrow> string \<Rightarrow> error + SnarkProof"
  groth16_verify :: "event list \<Rightarrow> string \<Rightarrow> string list \<Rightarrow> SnarkProof \<Rightarrow> error + bool"
  publicKey :: string
  networkPassphrase :: string
  registryAddress :: string
  executorAddress :: string
  newContract_throws :: "string \<Rightarrow> error option"
  contractCall_throws :: "contract \<Rightarrow> string \<Rightarrow> arg list \<Rightarrow> error option"
  build_throws :: "account \<Rightarrow> operation \<Rightarrow> error option"
  sign_throws :: "transaction \<Rightarrow> error option"
  getAccount :: "event list \<Rightarrow> string \<Rightarrow> error + account"
  simulateTransaction :: "event list \<Rightarrow> transaction \<Rightarrow> error option"
  sendTransaction :: "event list \<Rightarrow> transaction \<Rightarrow> error option"

text \<open>
  The state of the process: the module variable of \<open>commitment.ts\<close>, the client's
  map of blinding factors, and the events so far.
\<close>

record state =
  poseidonInstance :: "poseidon option"
  blindingFactors :: "string \<rightharpoonup> bytes"
  events :: "event list"

type_synonym 'a action = "state \<Rightarrow> (error + 'a) \<times> state"

definition tryCatch :: "'a action \<Rightarrow> (error \<Rightarrow> 'a action) \<Rightarrow> 'a action" where
  "tryCatch body handler st =
     (case body st of
        (Inl e, st') \<Rightarrow> handler e st'
      | (Inr v, st') \<Rightarrow> (Inr v, st'))"

definition bindA :: "'a action \<Rightarrow> ('a \<Rightarrow> 'b action) \<Rightarrow> 'b action" where
  "bindA m f st =
     (case m st of
        (Inl e, st') \<Rightarrow> (Inl e, st')
      | (Inr v, st') \<Rightarrow> f v st')"

definition record_event :: "event \<Rightarrow> state \<Rightarrow> state" where
  "record_event ev st = st\<lparr>events := events st @ [ev]\<rparr>"

subsection \<open>Encoding helpers\<close>

definition bigIntToBytes32 :: "int \<Rightarrow> bytes" where
  "bigIntToBytes32 v = bigIntToBytes_loop 32 v (replicate 32 0)"

text \<open>
  \<open>bytes32ToBigInt\<close> reads \<open>bytes[i]\<close> for \<open>i\<close> from 0 to 31 whatever the length:
  past the end the element is \<open>undefined\<close> and \<open>BigInt(undefined)\<close> throws a
  \<open>TypeError\<close>.
\<close>

function bytes32ToBigInt_loop :: "nat \<Rightarrow> int \<Rightarrow> bytes \<Rightarrow> error + int" where
  "bytes32ToBigInt_loop i result bs =
     (if i < 32
      then (if i < length bs
            then bytes32ToBigInt_loop (Suc i) (push_bit 8 result OR uint (bs ! i)) bs
            else Inl (JSError ''TypeError'' ''Cannot convert undefined to a BigInt''))
      else Inr result)"
  by pat_completeness auto
termination
  by (relation "measure (\<lambda>(i, result, bs). 32 - i)") auto

definition bytes32ToBigInt :: "bytes \<Rightarrow> error + int" where
  "bytes32ToBigInt bs = bytes32ToBigInt_loop 0 0 bs"

definition bytesToFieldElement :: "bytes \<Rightarrow> string" where
  "bytesToFieldElement bs = toString (foldl (\<lambda>result b. push_bit 8 result OR uint b) 0 bs)"

definition hashAddress :: "string \<Rightarrow> string" where
  "hashAddress address =
     toString (foldl (\<lambda>hash ch. (hash * 31 + of_char ch) mod 2 ^ 254) 0 address)"

definition encodeG1Point :: "G1Point \<Rightarrow> error + bytes" where
  "encodeG1Point point =
     bindE (BigInt_string (fst point)) (\<lambda>x.
     bindE (BigInt_string (fst (snd point))) (\<lambda>y.
     bindE (typedArray_set (replicate 64 0) (bigIntToBytes32 x) 0) (\<lambda>r1.
     typedArray_set r1 (bigIntToBytes32 y) 32)))"

definition encodeG2Point :: "G2Point \<Rightarrow> error + bytes" where
  "encodeG2Point point =
     bindE (BigInt_string (fst (fst point))) (\<lambda>x0.
     bindE (BigInt_string (snd (fst point))) (\<lambda>x1.
     bindE (BigInt_string (fst (fst (snd point)))) (\<lambda>y0.
     bindE (BigInt_string (snd (fst (snd point)))) (\<lambda>y1.
     bindE (typedArray_set (replicate 128 0) (bigIntToBytes32 x0) 0) (\<lambda>r1.
     bindE (typedArray_set r1 (bigIntToBytes32 x1) 32) (\<lambda>r2.
     bindE (typedArray_set r2 (bigIntToBytes32 y0) 64) (\<lambda>r3.
     typedArray_set r3 (bigIntToBytes32 y1) 96)))))))"

definition decodeG1Point :: "bytes \<Rightarrow> error + G1Point" where
  "decodeG1Point bs =
     bindE (bytes32ToBigInt (slice bs 0 32)) (\<lambda>x.
     bindE (bytes32ToBigInt (slice bs 32 64)) (\<lambda>y.
     Inr (toString x, toString y, ''1'')))"

definition decodeG2Point :: "bytes \<Rightarrow> error + G2Point" where
  "decodeG2Point bs =
     bindE (bytes32ToBigInt (slice bs 0 32)) (\<lambda>x0.
     bindE (bytes32ToBigInt (slice bs 32 64)) (\<lambda>x1.
     bindE (bytes32ToBigInt (slice bs 64 96)) (\<lambda>y0.
     bindE (bytes32ToBigInt (slice bs 96 128)) (\<lambda>y1.
     Inr ((toString x0, toString x1), (toString y0, toString y1), (''1'', ''0''))))))"

subsection \<open>Proof generation and local verification\<close>

definition CIRCUIT_WASM_PATH :: string where
  "CIRCUIT_WASM_PATH = ''./circuits/payment.wasm''"

definition CIRCUIT_ZKEY_PATH :: string where
  "CIRCUIT_ZKEY_PATH = ''./circuits/payment_final.zkey''"

text \<open>The \<open>try\<close> block of \<open>generatePaymentProof\<close>.\<close>

definition generatePaymentProof_try :: "env \<Rightarrow> CircuitInputs \<Rightarrow> bytes \<Rightarrow> Groth16Proof action" where
  "generatePaymentProof_try env circuitInputs nullifier st =
     (let st' = record_event (FullProve circuitInputs CIRCUIT_WASM_PATH CIRCUIT_ZKEY_PATH) st
      in case fullProve env (events st) circuitInputs CIRCUIT_WASM_PATH CIRCUIT_ZKEY_PATH of
           Inl e \<Rightarrow> (Inl e, st')
         | Inr prf \<Rightarrow>
             (bindE (encodeG1Point (pi_a prf)) (\<lambda>ea.
              bindE (encodeG2Point (pi_b prf)) (\<lambda>eb.
              bindE (encodeG1Point (pi_c prf)) (\<lambda>ec.
              Inr \<lparr>proof_a = ea, proof_b = eb, proof_c = ec, proof_nullifier = nullifier\<rparr>))),
              st'))"

text \<open>
  \<open>generatePaymentProof\<close> reads the clock (\<open>Date.now()\<close>) and passes the reading to
  \<open>generateNullifier\<close> in the place of the period. The circuit inputs are strings
  that only the prover of \<open>snarkjs\<close> reads; \<open>salary.toString()\<close> of an integer below
  \<open>10 ^ 21\<close> in magnitude is its decimal form, as for a \<open>bigint\<close>.
\<close>

definition generatePaymentProof :: "env \<Rightarrow> GenerateProofParams \<Rightarrow> Groth16Proof action" where
  "generatePaymentProof env params st =
     (let now = dateNow env (events st);
          st1 = record_event DateNow st;
          (nullifier, inst) =
             generateNullifier (buildPoseidon env) (poseidonInstance st1)
               (gp_commitment params) now (gp_blindingFactor params);
          st2 = st1\<lparr>poseidonInstance := inst\<rparr>;
          circuitInputs =
            \<lparr>ci_salary = toString (gp_salary params),
             ci_blindingFactor = bytesToFieldElement (gp_blindingFactor params),
             ci_commitment = bytesToFieldElement (gp_commitment params),
             ci_nullifier = bytesToFieldElement nullifier,
             ci_recipientHash = hashAddress (gp_recipient params)\<rparr>
      in tryCatch (generatePaymentProof_try env circuitInputs nullifier)
           (\<lambda>e st'. (Inl (JSError ''Error'' (''Proof generation failed: '' @ errorToString e)), st'))
           st2)"

text \<open>The \<open>try\<close> block of \<open>verifyProofLocally\<close>.\<close>

definition verifyProofLocally_try :: "env \<Rightarrow> Groth16Proof \<Rightarrow> PublicInputs \<Rightarrow> bool action" where
  "verifyProofLocally_try env prf publicInputs st =
     (case bindE (decodeG1Point (proof_a prf)) (\<lambda>da.
           bindE (decodeG2Point (proof_b prf)) (\<lambda>db.
           bindE (decodeG1Point (proof_c prf)) (\<lambda>dc.
           Inr \<lparr>pi_a = da, pi_b = db, pi_c = dc\<rparr>))) of
        Inl e \<Rightarrow> (Inl e, st)
      | Inr snarkProof \<Rightarrow>
          (let signals = [bytesToFieldElement (pub_commitment publicInputs),
                          bytesToFieldElement (pub_nullifier publicInputs),
                          pub_recipientHash publicInputs];
               vkeyPath = ''./circuits/verification_key.json''
           in (groth16_verify env (events st) vkeyPath signals snarkProof,
               record_event (Groth16Verify vkeyPath signals snarkProof) st)))"

definition verifyProofLocally :: "env \<Rightarrow> Groth16Proof \<Rightarrow> PublicInputs \<Rightarrow> bool action" where
  "verifyProofLocally env prf publicInputs =
     tryCatch (verifyProofLocally_try env prf publicInputs)
       (\<lambda>e st'. (Inr False,
          record_event (ConsoleError (''Verification error: '' @ errorToString e)) st'))"

section \<open>client.ts\<close>

subsection \<open>Parameters and results\<close>

text \<open>
  An optional field is an \<open>option\<close>. The result parsers of the client are placeholders
  that return the empty object \<open>{}\<close> under a type assertion, so every field of an
  \<open>Employee\<close> or a \<open>ViewKey\<close> read from the ledger may be \<open>undefined\<close>: these two
  records hold options throughout. The scope of a view key request is the string the
  caller passes; a \<open>Date\<close> is its time in milliseconds.
\<close>

record Employee =
  emp_address :: "string option"
  emp_companyId :: "string option"
  emp_salaryCommitment :: "bytes option"
  emp_isActive :: "bool option"
  emp_lastPaymentTimestamp :: "int option"

record UpdateSalaryParams =
  upd_companyId :: string
  upd_employeeAddress :: string
  upd_newSalary :: number

record DeactivateEmployeeParams =
  deact_companyId :: string
  deact_employeeAddress :: string

record ProcessPaymentParams =
  pay_companyId :: string
  pay_employeeAddress :: string
  pay_amount :: int
  pay_period :: int

record ProcessPayrollParams =
  roll_companyId :: string
  roll_period :: int
  roll_employees :: "string list option"

record PaymentResult =
  res_success :: bool
  res_transactionHash :: "string option"
  res_error :: "string option"
  res_period :: int
  res_employeeAddress :: string

record ViewKey =
  key_id :: "bytes option"
  key_companyId :: "string option"
  key_auditor :: "string option"
  key_grantedBy :: "string option"
  key_createdAt :: "int option"
  key_expiresAt :: "int option"
  key_scope :: "string option"

record GenerateViewKeyParams =
  vk_companyId :: string
  vk_auditorAddress :: string
  vk_scope :: string
  vk_durationDays :: int
  vk_timeRange :: "(int \<times> int) option"

text \<open>The type \<open>AuditScope\<close> of \<open>types/index.ts\<close>: a union of four string literals.\<close>

definition AuditScope :: "string list" where
  "AuditScope = [''full'', ''aggregate'', ''timeRange'', ''employeeList'']"

subsection \<open>Private helpers\<close>

definition liftE :: "error + 'a \<Rightarrow> 'a action" where
  "liftE r st = (r, st)"

text \<open>\<open>new Contract(address)\<close> and \<open>contract.call(method, ...args)\<close>.\<close>

definition newContract :: "env \<Rightarrow> string \<Rightarrow> error + contract" where
  "newContract env address =
     (case newContract_throws env address of
        Some e \<Rightarrow> Inl e
      | None \<Rightarrow> Inr (Contract address))"

definition contract_call :: "env \<Rightarrow> contract \<Rightarrow> string \<Rightarrow> arg list \<Rightarrow> error + operation" where
  "contract_call env contract method args =
     (case contractCall_throws env contract method args of
        Some e \<Rightarrow> Inl e
      | None \<Rightarrow> Inr (InvokeContract (contractAddress contract) method args))"

definition buildTransaction :: "env \<Rightarrow> operation \<Rightarrow> transaction action" where
  "buildTransaction env operation st =
     (let st' = record_event (GetAccount (publicKey env)) st
      in case getAccount env (events st) (publicKey env) of
           Inl e \<Rightarrow> (Inl e, st')
         | Inr account \<Rightarrow>
             (case build_throws env account operation of
                Some e \<Rightarrow> (Inl e, st')
              | None \<Rightarrow>
                  (Inr \<lparr>tx_source = account, tx_fee = ''100'',
                        tx_networkPassphrase = networkPassphrase env,
                        tx_operation = operation, tx_timeout = 30, tx_signers = []\<rparr>,
                   st')))"

definition submitTransaction :: "env \<Rightarrow> transaction \<Rightarrow> unit action" where
  "submitTransaction env tx st =
     (case sign_throws env tx of
        Some e \<Rightarrow> (Inl e, st)
      | None \<Rightarrow>
          (let signed = tx\<lparr>tx_signers := tx_signers tx @ [publicKey env]\<rparr>
           in ((case sendTransaction env (events st) signed of
                  Some e \<Rightarrow> Inl e
                | None \<Rightarrow> Inr ()),
               record_event (SendTransaction signed) st)))"

definition parseEmployeeResult :: "unit \<Rightarrow> Employee" where
  "parseEmployeeResult result =
     \<lparr>emp_address = None, emp_companyId = None, emp_salaryCommitment = None,
      emp_isActive = None, emp_lastPaymentTimestamp = None\<rparr>"

definition getEmployee :: "env \<Rightarrow> string \<Rightarrow> Employee action" where
  "getEmployee env address =
     bindA (liftE (newContract env (registryAddress env))) (\<lambda>contract.
     bindA (liftE (contract_call env contract ''get_employee'' [ArgString address])) (\<lambda>operation.
     bindA (buildTransaction env operation) (\<lambda>tx st.
       ((case simulateTransaction env (events st) tx of
           Some e \<Rightarrow> Inl e
         | None \<Rightarrow> Inr (parseEmployeeResult ())),
        record_event (SimulateTransaction tx) st))))"

definition getActiveEmployees :: "string \<Rightarrow> string list action" where
  "getActiveEmployees companyId st = (Inr [], st)"

definition getEmployeeSalary :: "string \<Rightarrow> string \<Rightarrow> int action" where
  "getEmployeeSalary companyId employee st = (Inr 0, st)"

definition mapAuditScope :: "string \<Rightarrow> (int \<times> int) option \<Rightarrow> error + scopeValue" where
  "mapAuditScope scope timeRange =
     (if scope = ''full'' then Inr FullCompany
      else if scope = ''aggregate'' then Inr AggregateOnly
      else if scope = ''timeRange'' then
        (case timeRange of
           None \<Rightarrow> Inl (JSError ''Error'' ''timeRange required for timeRange scope'')
         | Some (start, end) \<Rightarrow> Inr (TimeRange (start div 1000) (end div 1000)))
      else Inl (JSError ''Error'' (''Unknown scope: '' @ scope)))"

definition storeKey :: "string \<Rightarrow> string \<Rightarrow> string" where
  "storeKey companyId employeeAddress = companyId @ '':'' @ employeeAddress"

subsection \<open>Employee management\<close>

definition generateBlindingFactor :: "env \<Rightarrow> state \<Rightarrow> bytes \<times> state" where
  "generateBlindingFactor env st = (randomBytes env (events st), record_event RandomBytes st)"

text \<open>
  \<open>updateSalary\<close> awaits \<open>generateCommitment\<close> before it touches the store: when
  \<open>BigInt(newSalary)\<close> throws, the old entry stays. The new entry is stored before
  the ledger call.
\<close>

definition updateSalary :: "env \<Rightarrow> UpdateSalaryParams \<Rightarrow> unit action" where
  "updateSalary env params st =
     (let (blindingFactor, st1) = generateBlindingFactor env st;
          (r, inst) =
             generateCommitment_number (buildPoseidon env) (poseidonInstance st1)
               (upd_newSalary params) blindingFactor;
          st2 = st1\<lparr>poseidonInstance := inst\<rparr>
      in case r of
           Inl e \<Rightarrow> (Inl e, st2)
         | Inr commitment \<Rightarrow>
             (let key = storeKey (upd_companyId params) (upd_employeeAddress params);
                  st3 = st2\<lparr>blindingFactors := (blindingFactors st2)(key \<mapsto> blindingFactor)\<rparr>
              in bindA (liftE (newContract env (registryAddress env))) (\<lambda>contract.
                 bindA (liftE (contract_call env contract ''update_salary_commitment''
                          [ArgString (upd_companyId params),
                           ArgString (upd_employeeAddress params),
                           ArgBytes commitment])) (\<lambda>operation.
                 bindA (buildTransaction env operation) (\<lambda>tx.
                 submitTransaction env tx))) st3))"

definition deactivateEmployee :: "env \<Rightarrow> DeactivateEmployeeParams \<Rightarrow> unit action" where
  "deactivateEmployee env params =
     bindA (liftE (newContract env (registryAddress env))) (\<lambda>contract.
     bindA (liftE (contract_call env contract ''deactivate_employee''
              [ArgString (deact_companyId params), ArgString (deact_employeeAddress params)])) (\<lambda>operation.
     bindA (buildTransaction env operation) (\<lambda>tx.
     bindA (submitTransaction env tx) (\<lambda>u st.
       (let key = storeKey (deact_companyId params) (deact_employeeAddress params)
        in (Inr (), st\<lparr>blindingFactors := (blindingFactors st)(key := None)\<rparr>))))))"

subsection \<open>Payroll processing\<close>

text \<open>
  \<open>processPayment\<close> passes \<open>employee.salaryCommitment\<close> to \<open>generatePaymentProof\<close>.
  When that field is \<open>undefined\<close>, \<open>generatePaymentProof\<close> reads the clock, calls
  \<open>generateNullifier\<close>, which gets the Poseidon instance and then throws a \<open>TypeError\<close>
  on \<open>bytes.length\<close> in \<open>bytesToBigInt\<close>: that is \<open>proofForEmployee\<close> at \<open>None\<close>.
\<close>

definition proofForEmployee ::
  "env \<Rightarrow> ProcessPaymentParams \<Rightarrow> bytes \<Rightarrow> Employee \<Rightarrow> Groth16Proof action" where
  "proofForEmployee env params blindingFactor employee st =
     (case emp_salaryCommitment employee of
        Some commitment \<Rightarrow>
          generatePaymentProof env
            \<lparr>gp_salary = pay_amount params, gp_blindingFactor = blindingFactor,
             gp_recipient = pay_employeeAddress params, gp_commitment = commitment\<rparr> st
      | None \<Rightarrow>
          (let st1 = record_event DateNow st;
               (poseidon, inst) = getPoseidon (buildPoseidon env) (poseidonInstance st1)
           in (Inl (JSError ''TypeError''
                      ''Cannot read properties of undefined (reading 'length')''),
               st1\<lparr>poseidonInstance := inst\<rparr>)))"

definition processPayment :: "env \<Rightarrow> ProcessPaymentParams \<Rightarrow> PaymentResult action" where
  "processPayment env params st =
     (let key = storeKey (pay_companyId params) (pay_employeeAddress params)
      in case blindingFactors st key of
           None \<Rightarrow>
             (Inl (JSError ''Error''
                     ''Blinding factor not found. Was employee added via this SDK?''), st)
         | Some blindingFactor \<Rightarrow>
             bindA (getEmployee env (pay_employeeAddress params)) (\<lambda>employee.
             bindA (proofForEmployee env params blindingFactor employee) (\<lambda>prf.
             bindA (liftE (newContract env (executorAddress env))) (\<lambda>contract.
             bindA (liftE (contract_call env contract ''execute_payment''
                      [ArgString (pay_companyId params), ArgString (pay_employeeAddress params),
                       ArgNumber (pay_amount params), ArgBytes (proof_a prf),
                       ArgBytes (proof_b prf), ArgBytes (proof_c prf),
                       ArgBytes (proof_nullifier prf), ArgNumber (pay_period params)])) (\<lambda>operation.
             bindA (buildTransaction env operation) (\<lambda>tx.
             bindA (submitTransaction env tx) (\<lambda>u.
             liftE (Inr \<lparr>res_success = True, res_transactionHash = Some [],
                          res_error = None, res_period = pay_period params,
                          res_employeeAddress = pay_employeeAddress params\<rparr>))))))) st)"

text \<open>
  The loop of \<open>processPayroll\<close> over the employees: \<open>continue\<close> after the warning when
  no blinding factor is stored, and the \<open>catch\<close> block that pushes a failed result.
\<close>

fun processPayroll_loop ::
  "env \<Rightarrow> ProcessPayrollParams \<Rightarrow> string list \<Rightarrow> PaymentResult list \<Rightarrow> state
     \<Rightarrow> PaymentResult list \<times> state" where
  "processPayroll_loop env params [] results st = (results, st)"
| "processPayroll_loop env params (employeeAddress # rest) results st =
     (case blindingFactors st (storeKey (roll_companyId params) employeeAddress) of
        None \<Rightarrow>
          processPayroll_loop env params rest results
            (record_event
               (ConsoleWarn (''Skipping '' @ employeeAddress @ '': no blinding factor'')) st)
      | Some blindingFactor \<Rightarrow>
          (case bindA (getEmployeeSalary (roll_companyId params) employeeAddress) (\<lambda>salary.
                  processPayment env
                    \<lparr>pay_companyId = roll_companyId params,
                     pay_employeeAddress = employeeAddress,
                     pay_amount = salary, pay_period = roll_period params\<rparr>) st of
             (Inr result, st') \<Rightarrow>
               processPayroll_loop env params rest (results @ [result]) st'
           | (Inl e, st') \<Rightarrow>
               processPayroll_loop env params rest
                 (results @
                  [\<lparr>res_success = False, res_transactionHash = None,
                    res_error = Some (errorToString e), res_period = roll_period params,
                    res_employeeAddress = employeeAddress\<rparr>]) st'))"

definition processPayroll :: "env \<Rightarrow> ProcessPayrollParams \<Rightarrow> PaymentResult list action" where
  "processPayroll env params =
     bindA (case roll_employees params of
              Some employees \<Rightarrow> liftE (Inr employees)
            | None \<Rightarrow> getActiveEmployees (roll_companyId params)) (\<lambda>employees st.
       (let (results, st') = processPayroll_loop env params employees [] st
        in (Inr results, st')))"

subsection \<open>Audit\<close>

definition emptyViewKey :: ViewKey where
  "emptyViewKey =
     \<lparr>key_id = None, key_companyId = None, key_auditor = None, key_grantedBy = None,
      key_createdAt = None, key_expiresAt = None, key_scope = None\<rparr>"

definition generateViewKey :: "env \<Rightarrow> GenerateViewKeyParams \<Rightarrow> ViewKey action" where
  "generateViewKey env params =
     bindA (liftE (newContract env (executorAddress env))) (\<lambda>contract.
     bindA (liftE (mapAuditScope (vk_scope params) (vk_timeRange params))) (\<lambda>scopeValue.
     bindA (liftE (contract_call env contract ''generate_view_key''
              [ArgString (vk_companyId params), ArgString (publicKey env),
               ArgString (vk_auditorAddress params), ArgScope scopeValue,
               ArgNumber (vk_durationDays params)])) (\<lambda>operation.
     bindA (buildTransaction env operation) (\<lambda>tx.
     bindA (submitTransaction env tx) (\<lambda>u.
     liftE (Inr emptyViewKey))))))"

section \<open>Big-endian bytes\<close>

text \<open>
  The reference the encodings are compared with, written from the wire format and not
  from the code: \<open>be_bytes n v\<close> is the \<open>n\<close>-byte big-endian form of \<open>v\<close>, the least
  significant byte last.
\<close>

fun be_bytes :: "nat \<Rightarrow> int \<Rightarrow> bytes" where
  "be_bytes 0 v = []"
| "be_bytes (Suc n) v = be_bytes n (v div 256) @ [word_of_int v]"

section \<open>Sample inputs\<close>

text \<open>
  Concrete inputs on which the definitions are run: a small stand-in for the hash, a
  store with two employees, and an outside world in which the clock, the random
  generator, the prover and the server answer, and the Stellar SDK throws a
  \<open>TypeError\<close> when a transaction is signed: the client passes raw strings, numbers
  and byte arrays to \<open>contract.call\<close>, which the SDK cannot serialise.
\<close>

definition signingError :: error where
  "signingError = JSError ''TypeError'' ''XDR Write Error: the argument is not an ScVal''"

definition toyHash :: poseidon where
  "toyHash inputs = foldl (\<lambda>acc x. (acc * 31 + x) mod 1000003) 7 inputs"

definition sampleProof :: SnarkProof where
  "sampleProof = \<lparr>pi_a = (''1'', ''2'', ''1''),
                  pi_b = ((''3'', ''4''), (''5'', ''6''), (''1'', ''0'')),
                  pi_c = (''7'', ''8'', ''1'')\<rparr>"

definition sampleEnv :: env where
  "sampleEnv =
     \<lparr>buildPoseidon = toyHash,
      dateNow = (\<lambda>evs. 1700000000000 + int (length evs)),
      randomBytes = (\<lambda>evs. replicate 32 (of_nat (length evs) + 7)),
      fullProve = (\<lambda>evs inputs wasm zkey. Inr sampleProof),
      groth16_verify = (\<lambda>evs vkey signals prf. Inr True),
      publicKey = ''GADMIN'',
      networkPassphrase = ''Test SDF Network ; September 2015'',
      registryAddress = ''CREGISTRY'',
      executorAddress = ''CEXECUTOR'',
      newContract_throws = (\<lambda>address. None),
      contractCall_throws = (\<lambda>contract method args. None),
      build_throws = (\<lambda>account operation. None),
      sign_throws = (\<lambda>tx. Some signingError),
      getAccount = (\<lambda>evs accountId. Inr (Account accountId ''1'')),
      simulateTransaction = (\<lambda>evs tx. None),
      sendTransaction = (\<lambda>evs tx. None)\<rparr>"

definition sampleState :: state where
  "sampleState =
     \<lparr>poseidonInstance = None,
      blindingFactors = [''ACME:GALICE'' \<mapsto> replicate 32 1, ''ACME:GBOB'' \<mapsto> replicate 32 2],
      events = []\<rparr>"

definition sampleParams :: GenerateProofParams where
  "sampleParams = \<lparr>gp_salary = 500000, gp_blindingFactor = replicate 32 1,
                    gp_recipient = ''GALICE'', gp_commitment = replicate 32 9\<rparr>"

definition emptyProof :: Groth16Proof where
  "emptyProof = \<lparr>proof_a = [], proof_b = [], proof_c = [], proof_nullifier = []\<rparr>"

definition samplePublicInputs :: PublicInputs where
  "samplePublicInputs = \<lparr>pub_commitment = replicate 32 9, pub_nullifier = replicate 32 3,
                          pub_recipientHash = ''12345''\<rparr>"

definition isOk :: "error + 'a \<Rightarrow> bool" where
  "isOk r = (case r of Inl e \<Rightarrow> False | Inr v \<Rightarrow> True)"

definition carolPayment :: ProcessPaymentParams where
  "carolPayment = \<lparr>pay_companyId = ''ACME'', pay_employeeAddress = ''GCAROL'',
                    pay_amount = 500000, pay_period = 202601\<rparr>"

definition sampleRoll :: ProcessPayrollParams where
  "sampleRoll = \<lparr>roll_companyId = ''ACME'', roll_period = 202601,
                  roll_employees = Some [''GCAROL'', ''GALICE'', ''GBOB'']\<rparr>"



definition employeeListRequest :: GenerateViewKeyParams where
  "employeeListRequest = \<lparr>vk_companyId = ''ACME'', vk_auditorAddress = ''GAUDITOR'',
                           vk_scope = ''employeeList'', vk_durationDays = 30,
                           vk_timeRange = None\<rparr>"

definition aliceDeactivation :: DeactivateEmployeeParams where
  "aliceDeactivation = \<lparr>deact_companyId = ''ACME'', deact_employeeAddress = ''GALICE''\<rparr>"

definition aliceRaise :: UpdateSalaryParams where
  "aliceRaise = \<lparr>upd_companyId = ''ACME'', upd_employeeAddress = ''GALICE'',
                  upd_newSalary = Integral 600000\<rparr>"

definition fractionalRaise :: UpdateSalaryParams where
  "fractionalRaise = \<lparr>upd_companyId = ''ACME'', upd_employeeAddress = ''GALICE'',
                       upd_newSalary = NonIntegral\<rparr>"

section \<open>Properties of the scalar codec\<close>

lemma shift_or_byte: "push_bit 8 r OR uint (b :: 8 word) = r * 256 + uint b"
proof -
  have "concat_bit 8 (uint b) r = take_bit 8 (uint b) + push_bit 8 r"
    by (rule concat_bit_eq)
  moreover have "take_bit 8 (uint b) = uint b"
    by (simp add: take_bit_int_eq_self_iff) (use uint_lt2p [of b] in simp)
  ultimately show ?thesis
    by (simp add: concat_bit_def push_bit_eq_mult or.commute)
qed

lemma low_byte: "(word_of_int (t AND 255) :: 8 word) = word_of_int t"
proof -
  have "t AND 255 = take_bit 8 t"
    using take_bit_eq_mask [of 8 t] by (simp add: mask_eq_exp_minus_1)
  then show ?thesis
    by (simp add: word_of_int_eq_iff)
qed

lemma length_be_bytes [simp]: "length (be_bytes n v) = n"
  by (induction n arbitrary: v) simp_all

lemma loop_be_bytes:
  "i \<le> length bs \<Longrightarrow> bigIntToBytes_loop i t bs = be_bytes i t @ drop i bs"
proof (induction i arbitrary: t bs)
  case 0
  then show ?case by simp
next
  case (Suc i)
  then have "i < length bs" by simp
  then have "drop i (bs[i := word_of_int t]) = (word_of_int t :: 8 word) # drop (Suc i) bs"
    by (simp add: Cons_nth_drop_Suc [symmetric] upd_conv_take_nth_drop)
  with Suc show ?case
    by (simp add: low_byte drop_bit_eq_div)
qed

lemma bigIntToBytes_be: "bigIntToBytes v = be_bytes 32 v"
  by (simp add: bigIntToBytes_def loop_be_bytes)

lemma length_bigIntToBytes: "length (bigIntToBytes v) = 32"
  by (simp add: bigIntToBytes_be)

lemma bytesToBigInt_snoc: "bytesToBigInt (bs @ [b]) = bytesToBigInt bs * 256 + uint b"
  by (simp add: bytesToBigInt_def shift_or_byte)

lemma bytesToBigInt_be: "bytesToBigInt (be_bytes n v) = v mod 2 ^ (8 * n)"
proof (induction n arbitrary: v)
  case 0
  then show ?case by (simp add: bytesToBigInt_def)
next
  case (Suc n)
  have "uint (word_of_int v :: 8 word) = v mod 256"
    by (simp add: uint_word_of_int)
  moreover have "(v div 256) mod 2 ^ (8 * n) * 256 + v mod 256 = v mod 2 ^ (8 * Suc n)"
  proof -
    have "v mod (256 * 2 ^ (8 * n)) = 256 * ((v div 256) mod 2 ^ (8 * n)) + v mod 256"
      by (rule zmod_zmult2_eq) simp
    then show ?thesis by (simp add: power_add mult.commute)
  qed
  ultimately show ?case
    using Suc by (simp add: bytesToBigInt_snoc)
qed

lemma bytesToBigInt_bigIntToBytes: "bytesToBigInt (bigIntToBytes v) = v mod 2 ^ 256"
  by (simp add: bigIntToBytes_be bytesToBigInt_be)

section \<open>Properties of strings, points and comparison\<close>

declare natToString.simps [simp del]
declare bytes32ToBigInt_loop.simps [simp del]
declare areEqual_loop.simps [simp del]

lemma digitValue_digitChar: "d < 10 \<Longrightarrow> digitValue (digitChar d) = Some d"
  by (simp add: digitValue_def digitChar_def Let_def)

lemma parseDigits_append:
  "parseDigits r acc (xs @ ys) =
     (case parseDigits r acc xs of None \<Rightarrow> None | Some a \<Rightarrow> parseDigits r a ys)"
  by (induction xs arbitrary: acc) (simp_all split: option.splits)

lemma parseDigits_natToString:
  "parseDigits 10 acc (natToString n) = Some (acc * 10 ^ length (natToString n) + n)"
proof (induction n arbitrary: acc rule: natToString.induct)
  case (1 n)
  show ?case
  proof (cases "n < 10")
    case True
    then show ?thesis
      by (subst (1 2) natToString.simps) (simp add: digitValue_digitChar)
  next
    case False
    have m: "n mod 10 < 10" by simp
    from False "1.IH" [of acc] show ?thesis
      by (subst (1 2) natToString.simps)
        (simp add: parseDigits_append digitValue_digitChar [OF m] algebra_simps)
  qed
qed

lemma natToString_nonempty: "natToString n \<noteq> []"
  by (subst natToString.simps) simp

lemma natToString_digits: "ch \<in> set (natToString n) \<Longrightarrow> \<exists>d<10. ch = digitChar d"
proof (induction n rule: natToString.induct)
  case (1 n)
  show ?case
  proof (cases "n < 10")
    case True
    with "1.prems" show ?thesis
      by (subst (asm) natToString.simps) auto
  next
    case False
    have m: "n mod 10 < 10" by simp
    from False "1.prems" have "ch \<in> set (natToString (n div 10)) \<or> ch = digitChar (n mod 10)"
      by (subst (asm) natToString.simps) auto
    with False "1.IH" m show ?thesis by blast
  qed
qed

lemma digitChar_facts:
  assumes "d < 10"
  shows "\<not> isStrWhiteSpaceChar (digitChar d)"
    and "digitChar d \<notin> {CHR ''+'', CHR ''-'', CHR ''x'', CHR ''X'', CHR ''o'', CHR ''O'', CHR ''b'', CHR ''B''}"
proof -
  have v: "(of_char (digitChar d) :: nat) = 48 + d"
    using assms by (simp add: digitChar_def)
  from v assms show "\<not> isStrWhiteSpaceChar (digitChar d)"
    by (simp add: isStrWhiteSpaceChar_def)
  have "(of_char (digitChar d) :: nat) \<notin> of_char ` {CHR ''+'', CHR ''-'', CHR ''x'', CHR ''X'', CHR ''o'', CHR ''O'', CHR ''b'', CHR ''B''}"
    using assms by (simp add: v)
  then show "digitChar d \<notin> {CHR ''+'', CHR ''-'', CHR ''x'', CHR ''X'', CHR ''o'', CHR ''O'', CHR ''b'', CHR ''B''}"
    by blast
qed

lemma trimString_id:
  assumes "\<forall>ch \<in> set s. \<not> isStrWhiteSpaceChar ch"
  shows "trimString s = s"
proof -
  have "dropWhile isStrWhiteSpaceChar s = s"
    using assms by (cases s) simp_all
  moreover have "dropWhile isStrWhiteSpaceChar (rev s) = rev s"
    using assms by (cases "rev s") (simp, metis dropWhile.simps(2) list.set_intros(1) set_rev)
  ultimately show ?thesis by (simp add: trimString_def)
qed

lemma StringToBigInt_natToString: "StringToBigInt (natToString n) = Some (int n)"
proof -
  let ?s = "natToString n"
  have tr: "trimString ?s = ?s"
    by (rule trimString_id) (use natToString_digits digitChar_facts(1) in blast)
  obtain ch rest where s: "?s = ch # rest"
    using natToString_nonempty [of n] by (cases ?s) auto
  have c: "ch \<notin> {CHR ''+'', CHR ''-''}"
  proof -
    have "ch \<in> set ?s" by (simp add: s)
    then obtain d where "d < 10" "ch = digitChar d"
      using natToString_digits by blast
    then show ?thesis
      using digitChar_facts(2) [of d] by simp
  qed
  have r: "rest \<noteq> [] \<Longrightarrow> hd rest \<notin> {CHR ''x'', CHR ''X'', CHR ''o'', CHR ''O'', CHR ''b'', CHR ''B''}"
  proof -
    assume "rest \<noteq> []"
    then have "hd rest \<in> set ?s" by (simp add: s)
    then obtain d where "d < 10" "hd rest = digitChar d"
      using natToString_digits by blast
    then show ?thesis
      using digitChar_facts(2) [of d] by simp
  qed
  have p: "parseDigitString 10 ?s = Some n"
    by (simp add: parseDigitString_def natToString_nonempty parseDigits_natToString)
  from c r p show ?thesis
    unfolding StringToBigInt_def tr by (auto simp: s)
qed

lemma BigInt_string_toString: "0 \<le> v \<Longrightarrow> BigInt_string (toString v) = Inr v"
  by (simp add: BigInt_string_def toString_def StringToBigInt_natToString)

lemma bytes32ToBigInt_loop_long:
  "i \<le> 32 \<Longrightarrow> 32 \<le> length bs \<Longrightarrow>
     bytes32ToBigInt_loop i r bs =
       Inr (foldl (\<lambda>result b. push_bit 8 result OR uint b) r (drop i (take 32 bs)))"
proof (induction i r bs rule: bytes32ToBigInt_loop.induct)
  case (1 i r bs)
  show ?case
  proof (cases "i < 32")
    case True
    with "1.prems" have il: "i < length bs" by simp
    from True il have d: "drop i (take 32 bs) = bs ! i # drop (Suc i) (take 32 bs)"
      by (simp add: Cons_nth_drop_Suc [symmetric])
    from True il "1.IH" "1.prems" show ?thesis
      by (subst bytes32ToBigInt_loop.simps) (simp add: d)
  next
    case False
    with "1.prems" show ?thesis
      by (subst bytes32ToBigInt_loop.simps) simp
  qed
qed

lemma bytes32ToBigInt_loop_short:
  "length bs < 32 \<Longrightarrow> i \<le> length bs \<Longrightarrow>
     bytes32ToBigInt_loop i r bs = Inl (JSError ''TypeError'' ''Cannot convert undefined to a BigInt'')"
proof (induction i r bs rule: bytes32ToBigInt_loop.induct)
  case (1 i r bs)
  show ?case
  proof (cases "i < length bs")
    case True
    with "1.IH" "1.prems" show ?thesis
      by (subst bytes32ToBigInt_loop.simps) simp
  next
    case False
    with "1.prems" show ?thesis
      by (subst bytes32ToBigInt_loop.simps) simp
  qed
qed

lemma bytes32ToBigInt_eq:
  "bytes32ToBigInt bs =
     (if 32 \<le> length bs then Inr (bytesToBigInt (take 32 bs))
      else Inl (JSError ''TypeError'' ''Cannot convert undefined to a BigInt''))"
  by (simp add: bytes32ToBigInt_def bytes32ToBigInt_loop_long bytes32ToBigInt_loop_short
      bytesToBigInt_def)

lemma bigIntToBytes32_be: "bigIntToBytes32 v = be_bytes 32 v"
  by (simp add: bigIntToBytes32_def loop_be_bytes)

lemma bytes32ToBigInt_be: "bytes32ToBigInt (be_bytes 32 v) = Inr (v mod 2 ^ 256)"
  by (simp add: bytes32ToBigInt_eq bytesToBigInt_be)

lemma encodeG1Point_toString:
  assumes "0 \<le> x" "0 \<le> y"
  shows "encodeG1Point (toString x, toString y, z) = Inr (be_bytes 32 x @ be_bytes 32 y)"
  using assms
  by (simp add: encodeG1Point_def BigInt_string_toString bindE_def typedArray_set_def
      bigIntToBytes32_be)

lemma decodeG1Point_be:
  "decodeG1Point (be_bytes 32 x @ be_bytes 32 y) =
     Inr (toString (x mod 2 ^ 256), toString (y mod 2 ^ 256), ''1'')"
  by (simp add: decodeG1Point_def slice_def bytes32ToBigInt_be bindE_def)

lemma encodeG2Point_toString:
  assumes "0 \<le> x0" "0 \<le> x1" "0 \<le> y0" "0 \<le> y1"
  shows "encodeG2Point ((toString x0, toString x1), (toString y0, toString y1), z) =
           Inr (be_bytes 32 x0 @ be_bytes 32 x1 @ be_bytes 32 y0 @ be_bytes 32 y1)"
  using assms
  by (simp add: encodeG2Point_def BigInt_string_toString bindE_def typedArray_set_def
      bigIntToBytes32_be)

lemma decodeG2Point_be:
  "decodeG2Point (be_bytes 32 x0 @ be_bytes 32 x1 @ be_bytes 32 y0 @ be_bytes 32 y1) =
     Inr ((toString (x0 mod 2 ^ 256), toString (x1 mod 2 ^ 256)),
          (toString (y0 mod 2 ^ 256), toString (y1 mod 2 ^ 256)), (''1'', ''0''))"
  by (simp add: decodeG2Point_def slice_def bytes32ToBigInt_be bindE_def)

lemma areEqual_loop_iff:
  "length xs = length ys \<Longrightarrow>
     areEqual_loop i xs ys = (\<forall>j. i \<le> j \<and> j < length xs \<longrightarrow> xs ! j = ys ! j)"
proof (induction i xs ys rule: areEqual_loop.induct)
  case (1 i xs ys)
  show ?case
  proof (cases "i < length xs")
    case False
    then show ?thesis
      by (subst areEqual_loop.simps) auto
  next
    case True
    show ?thesis
    proof (cases "xs ! i = ys ! i")
      case False
      with True show ?thesis
        by (subst areEqual_loop.simps) auto
    next
      case eq: True
      have "(\<forall>j. i \<le> j \<and> j < length xs \<longrightarrow> xs ! j = ys ! j) =
            (\<forall>j. Suc i \<le> j \<and> j < length xs \<longrightarrow> xs ! j = ys ! j)"
        using eq by (metis Suc_leI le_neq_implies_less Suc_leD)
      with True eq "1.IH" "1.prems" show ?thesis
        by (subst areEqual_loop.simps) simp
    qed
  qed
qed

lemma areEqual_iff: "areEqual xs ys = (xs = ys)"
  by (auto simp: areEqual_def areEqual_loop_iff list_eq_iff_nth_eq)

section \<open>Properties of the error-handling combinators\<close>

lemma fst_tryCatch_rethrow:
  "fst (tryCatch body (\<lambda>e st'. (Inl (f e), st')) st) = Inr v \<Longrightarrow> fst (body st) = Inr v"
  by (auto simp: tryCatch_def split: prod.splits sum.splits)

lemma bindE_InrE:
  assumes "bindE r f = Inr v"
  obtains u where "r = Inr u" and "f u = Inr v"
  using assms by (cases r) (simp_all add: bindE_def)

lemma generatePaymentProof_try_nullifier:
  assumes "fst (generatePaymentProof_try env ci nf s) = Inr prf"
  shows "proof_nullifier prf = nf"
proof (cases "fullProve env (events s) ci CIRCUIT_WASM_PATH CIRCUIT_ZKEY_PATH")
  case (Inl e)
  with assms show ?thesis
    by (simp add: generatePaymentProof_try_def Let_def)
next
  case (Inr p)
  with assms have "bindE (encodeG1Point (pi_a p)) (\<lambda>ea.
              bindE (encodeG2Point (pi_b p)) (\<lambda>eb.
              bindE (encodeG1Point (pi_c p)) (\<lambda>ec.
              Inr \<lparr>proof_a = ea, proof_b = eb, proof_c = ec, proof_nullifier = nf\<rparr>))) = Inr prf"
    by (simp add: generatePaymentProof_try_def Let_def)
  then show ?thesis
    by (elim bindE_InrE) auto
qed

lemma isOk_Inr: "isOk r \<Longrightarrow> \<exists>v. r = Inr v"
  by (cases r) (simp_all add: isOk_def)

section \<open>Properties of the client\<close>

lemma buildTransaction_store:
  "blindingFactors (snd (buildTransaction env operation st)) = blindingFactors st"
  by (simp add: buildTransaction_def Let_def record_event_def split: sum.splits option.splits)

lemma submitTransaction_store:
  "blindingFactors (snd (submitTransaction env tx st)) = blindingFactors st"
  by (simp add: submitTransaction_def Let_def record_event_def split: option.splits)

lemma liftE_store: "blindingFactors (snd (liftE r st)) = blindingFactors st"
  by (simp add: liftE_def)

lemma bindA_store:
  assumes "\<And>s. blindingFactors (snd (m s)) = blindingFactors s"
    and "\<And>v s. blindingFactors (snd (f v s)) = blindingFactors s"
  shows "blindingFactors (snd (bindA m f st)) = blindingFactors st"
proof (cases "m st")
  case (Pair r s')
  with assms(1) [of st] have "blindingFactors s' = blindingFactors st" by simp
  with Pair assms(2) show ?thesis
    by (cases r) (simp_all add: bindA_def)
qed

lemma bindA_Inr:
  assumes "fst (bindA m f st) = Inr v"
  obtains u where "fst (m st) = Inr u" and "fst (f u (snd (m st))) = Inr v"
    and "snd (bindA m f st) = snd (f u (snd (m st)))"
  using assms by (cases "m st"; cases "fst (m st)") (auto simp: bindA_def)

lemma deactivateEmployee_removed:
  "fst (deactivateEmployee env dp st) = Inr v \<Longrightarrow>
     blindingFactors (snd (deactivateEmployee env dp st)) =
       (blindingFactors st)(storeKey (deact_companyId dp) (deact_employeeAddress dp) := None)"
  by (auto simp: deactivateEmployee_def bindA_def liftE_def buildTransaction_def
      submitTransaction_def record_event_def Let_def
      split: sum.splits option.splits prod.splits)

lemma deactivateEmployee_failed:
  "fst (deactivateEmployee env dp st) = Inl e \<Longrightarrow>
     blindingFactors (snd (deactivateEmployee env dp st)) = blindingFactors st"
  by (auto simp: deactivateEmployee_def bindA_def liftE_def buildTransaction_def
      submitTransaction_def record_event_def Let_def
      split: sum.splits option.splits prod.splits)

lemma generateCommitment_number_Integral:
  "generateCommitment_number bp inst (Integral v) bf =
     (Inr (fst (generateCommitment bp inst v bf)), snd (generateCommitment bp inst v bf))"
  by (simp add: generateCommitment_number_def generateCommitment_def BigInt_number_def
      Let_def split: prod.splits)

lemma updateSalary_store:
  "blindingFactors (snd (updateSalary env up st)) =
     (case upd_newSalary up of
        Integral v \<Rightarrow>
          (blindingFactors st)(storeKey (upd_companyId up) (upd_employeeAddress up)
             \<mapsto> fst (generateBlindingFactor env st))
      | NonIntegral \<Rightarrow> blindingFactors st)"
  by (auto simp: updateSalary_def generateBlindingFactor_def generateCommitment_number_def
      BigInt_number_def bindA_def liftE_def
      buildTransaction_def submitTransaction_def record_event_def Let_def
      split: sum.splits option.splits prod.splits number.splits)

lemma updateSalary_NonIntegral:
  "upd_newSalary up = NonIntegral \<Longrightarrow>
     fst (updateSalary env up st) =
       Inl (JSError ''RangeError''
              ''The number cannot be converted to a BigInt because it is not an integer'')"
  by (simp add: updateSalary_def generateBlindingFactor_def generateCommitment_number_def
      BigInt_number_def Let_def split: prod.splits)

lemma deactivateEmployee_store:
  "blindingFactors (snd (deactivateEmployee env dp st)) =
     (case fst (deactivateEmployee env dp st) of
        Inl e \<Rightarrow> blindingFactors st
      | Inr u \<Rightarrow>
          (blindingFactors st)
            (storeKey (deact_companyId dp) (deact_employeeAddress dp) := None))"
  by (cases "fst (deactivateEmployee env dp st)")
    (simp_all add: deactivateEmployee_failed deactivateEmployee_removed)

lemma generatePaymentProof_store:
  "blindingFactors (snd (generatePaymentProof env gp st)) = blindingFactors st"
  by (simp add: generatePaymentProof_def generatePaymentProof_try_def tryCatch_def Let_def
      record_event_def split: prod.splits sum.splits)

lemma proofForEmployee_store:
  "blindingFactors (snd (proofForEmployee env params bf employee st)) = blindingFactors st"
  by (simp add: proofForEmployee_def generatePaymentProof_store Let_def record_event_def
      split: option.splits prod.splits)

lemma getEmployee_store:
  "blindingFactors (snd (getEmployee env address st)) = blindingFactors st"
  unfolding getEmployee_def
  by (intro bindA_store liftE_store buildTransaction_store) (simp add: record_event_def)

lemma processPayment_store:
  "blindingFactors (snd (processPayment env params st)) = blindingFactors st"
proof (cases "blindingFactors st (storeKey (pay_companyId params) (pay_employeeAddress params))")
  case None
  then show ?thesis by (simp add: processPayment_def)
next
  case (Some bf)
  then show ?thesis
    unfolding processPayment_def Let_def
    by (simp only: option.case)
      (intro bindA_store liftE_store buildTransaction_store submitTransaction_store
        getEmployee_store proofForEmployee_store)
qed

lemma processPayment_result:
  assumes "fst (processPayment env params st) = Inr r"
  shows "res_employeeAddress r = pay_employeeAddress params \<and> res_success r"
proof (cases "blindingFactors st (storeKey (pay_companyId params) (pay_employeeAddress params))")
  case None
  with assms show ?thesis by (simp add: processPayment_def)
next
  case (Some bf)
  with assms show ?thesis
    unfolding processPayment_def Let_def
    by (simp only: option.case) (elim bindA_Inr, auto simp: liftE_def)
qed

lemma payOne_eq:
  "bindA (getEmployeeSalary companyId employeeAddress) f st = f 0 st"
  by (simp add: bindA_def getEmployeeSalary_def)

lemma processPayroll_loop_acc:
  "processPayroll_loop env params es results st =
     (results @ fst (processPayroll_loop env params es [] st),
      snd (processPayroll_loop env params es [] st))"
proof (induction es arbitrary: results st)
  case Nil
  then show ?case by simp
next
  case (Cons a es)
  show ?case
  proof (cases "blindingFactors st (storeKey (roll_companyId params) a)")
    case None
    then show ?thesis
      using Cons.IH [of results] by simp
  next
    case (Some bf)
    obtain r st' where p: "processPayment env
        \<lparr>pay_companyId = roll_companyId params, pay_employeeAddress = a,
         pay_amount = 0, pay_period = roll_period params\<rparr> st = (r, st')"
      by (cases "processPayment env
        \<lparr>pay_companyId = roll_companyId params, pay_employeeAddress = a,
         pay_amount = 0, pay_period = roll_period params\<rparr> st")
    show ?thesis
    proof (cases r)
      case (Inl e)
      with Some p show ?thesis
        using Cons.IH [of "results @ [x]" st' for x] Cons.IH [of "[x]" st' for x]
        by (simp add: payOne_eq)
    next
      case (Inr v)
      with Some p show ?thesis
        using Cons.IH [of "results @ [v]" st'] Cons.IH [of "[v]" st']
        by (simp add: payOne_eq)
    qed
  qed
qed

lemma processPayroll_loop_addresses:
  "map res_employeeAddress (fst (processPayroll_loop env params es [] st)) =
     filter (\<lambda>a. blindingFactors st (storeKey (roll_companyId params) a) \<noteq> None) es"
proof (induction es arbitrary: st)
  case Nil
  then show ?case by simp
next
  case (Cons a es)
  show ?case
  proof (cases "blindingFactors st (storeKey (roll_companyId params) a)")
    case None
    then show ?thesis
      using Cons.IH [of "record_event (ConsoleWarn (''Skipping '' @ a @ '': no blinding factor'')) st"]
      by (simp add: record_event_def)
  next
    case (Some bf)
    let ?pp = "\<lparr>pay_companyId = roll_companyId params, pay_employeeAddress = a,
         pay_amount = 0, pay_period = roll_period params\<rparr>"
    obtain r st' where p: "processPayment env ?pp st = (r, st')"
      by (cases "processPayment env ?pp st")
    have st': "blindingFactors st' = blindingFactors st"
      using processPayment_store [of env ?pp st] p by simp
    show ?thesis
    proof (cases r)
      case (Inl e)
      with Some p st' show ?thesis
        using Cons.IH [of st'] processPayroll_loop_acc [of env params es "[x]" st' for x]
        by (simp add: payOne_eq)
    next
      case (Inr v)
      with p have "res_employeeAddress v = a"
        using processPayment_result [of env ?pp st v] by simp
      with Inr Some p st' show ?thesis
        using Cons.IH [of st'] processPayroll_loop_acc [of env params es "[v]" st']
        by (simp add: payOne_eq)
    qed
  qed
qed

lemma processPayroll_eq:
  "processPayroll env params st =
     (Inr (fst (processPayroll_loop env params
                 (case roll_employees params of Some es \<Rightarrow> es | None \<Rightarrow> []) [] st)),
      snd (processPayroll_loop env params
                 (case roll_employees params of Some es \<Rightarrow> es | None \<Rightarrow> []) [] st))"
  by (simp add: processPayroll_def bindA_def liftE_def getActiveEmployees_def
      split: option.splits prod.splits)

lemma processPayroll_loop_params:
  "processPayroll_loop env (params\<lparr>roll_employees := x\<rparr>) es results st =
     processPayroll_loop env params es results st"
  by (induction es arbitrary: results st) (simp_all split: option.splits prod.splits sum.splits)



section \<open>The claims\<close>

text \<open>
  C1, on the code. The nullifier that \<open>generatePaymentProof\<close> attaches to a proof is
  \<open>generateNullifier\<close> of the commitment, the reading of the clock at the call, and
  the blinding factor: the wall-clock time stands where the period belongs, so the
  nullifier is not a function of commitment, period and secret alone.
\<close>

theorem generatePaymentProof_nullifier_from_clock:
  "fst (generatePaymentProof env params st) = Inr prf \<Longrightarrow>
     proof_nullifier prf =
       fst (generateNullifier (buildPoseidon env) (poseidonInstance st)
              (gp_commitment params) (dateNow env (events st)) (gp_blindingFactor params))"
proof -
  assume ok: "fst (generatePaymentProof env params st) = Inr prf"
  obtain nf inst where g: "generateNullifier (buildPoseidon env) (poseidonInstance st)
              (gp_commitment params) (dateNow env (events st)) (gp_blindingFactor params) = (nf, inst)"
    by (cases "generateNullifier (buildPoseidon env) (poseidonInstance st)
              (gp_commitment params) (dateNow env (events st)) (gp_blindingFactor params)")
  from ok have "\<exists>ci s. fst (generatePaymentProof_try env ci nf s) = Inr prf"
    by (auto simp: generatePaymentProof_def Let_def record_event_def g
        dest!: fst_tryCatch_rethrow)
  then have "proof_nullifier prf = nf"
    by (auto dest: generatePaymentProof_try_nullifier)
  with g show ?thesis by simp
qed


theorem generatePaymentProof_nullifier_from_clock_witness:
  "(\<exists>prf. fst (generatePaymentProof sampleEnv sampleParams sampleState) = Inr prf
      \<and> proof_nullifier prf =
          fst (generateNullifier toyHash None (replicate 32 9) 1700000000000 (replicate 32 1)))
   \<and> fst (generateNullifier toyHash None (replicate 32 9) 1700000000000 (replicate 32 1))
       \<noteq> fst (generateNullifier toyHash None (replicate 32 9) 1700000000001 (replicate 32 1))"
proof -
  have "isOk (encodeG1Point (pi_a sampleProof))" by code_simp
  then obtain ea where ea: "encodeG1Point (pi_a sampleProof) = Inr ea"
    using isOk_Inr by blast
  have "isOk (encodeG2Point (pi_b sampleProof))" by code_simp
  then obtain eb where eb: "encodeG2Point (pi_b sampleProof) = Inr eb"
    using isOk_Inr by blast
  have "isOk (encodeG1Point (pi_c sampleProof))" by code_simp
  then obtain ec where ec: "encodeG1Point (pi_c sampleProof) = Inr ec"
    using isOk_Inr by blast
  have "\<exists>prf. fst (generatePaymentProof sampleEnv sampleParams sampleState) = Inr prf"
    by (simp add: generatePaymentProof_def generatePaymentProof_try_def tryCatch_def Let_def
        record_event_def sampleEnv_def ea eb ec bindE_def split: prod.splits)
  then obtain pf where ok: "fst (generatePaymentProof sampleEnv sampleParams sampleState) = Inr pf"
    by blast
  have n: "proof_nullifier pf =
          fst (generateNullifier toyHash None (replicate 32 9) 1700000000000 (replicate 32 1))"
    using generatePaymentProof_nullifier_from_clock [OF ok]
    by (simp add: sampleEnv_def sampleState_def sampleParams_def)
  have d: "fst (generateNullifier toyHash None (replicate 32 9) 1700000000000 (replicate 32 1))
       \<noteq> fst (generateNullifier toyHash None (replicate 32 9) 1700000000001 (replicate 32 1))"
    by code_simp
  from ok n d show ?thesis by blast
qed

text \<open>
  C2. \<open>verifyCommitment\<close> answers true exactly when the commitment computed from the
  salary and the blinding factor is the given one, byte for byte; verifying a commitment
  that \<open>generateCommitment\<close> has just produced answers true; the answer does not depend
  on whether the Poseidon instance was built before, and the only thing the call
  changes is that instance, from unset to built.
\<close>

theorem verifyCommitment_iff:
  "fst (verifyCommitment bp inst cm s bf) = (fst (generateCommitment bp inst s bf) = cm)
   \<and> fst (verifyCommitment bp (snd (generateCommitment bp inst s bf))
            (fst (generateCommitment bp inst s bf)) s bf)
   \<and> fst (verifyCommitment bp None cm s bf) = fst (verifyCommitment bp (Some bp) cm s bf)
   \<and> snd (verifyCommitment bp None cm s bf) = Some bp
   \<and> snd (verifyCommitment bp (Some p) cm s bf) = Some p"
  by (auto simp: verifyCommitment_def generateCommitment_def getPoseidon_def areEqual_iff
      split: option.splits prod.splits)

text \<open>
  C3. For coordinates in the range \<open>0 \<le> v < 2 ^ 256\<close>, a G1 point
  \<open>[x, y, '1']\<close> and a G2 point \<open>[[x0, x1], [y0, y1], ['1', '0']]\<close>, with the
  coordinates as decimal strings, are encoded as the 32-byte big-endian coordinates
  one after the other (64 and 128 bytes), and decoding the encoding gives the
  point back.
\<close>

theorem point_roundtrip:
  assumes "0 \<le> x \<and> x < 2 ^ 256" and "0 \<le> y \<and> y < 2 ^ 256"
    and "0 \<le> x0 \<and> x0 < 2 ^ 256" and "0 \<le> x1 \<and> x1 < 2 ^ 256"
    and "0 \<le> y0 \<and> y0 < 2 ^ 256" and "0 \<le> y1 \<and> y1 < 2 ^ 256"
  shows "encodeG1Point (toString x, toString y, ''1'') = Inr (be_bytes 32 x @ be_bytes 32 y)
    \<and> length (be_bytes 32 x @ be_bytes 32 y) = 64
    \<and> bindE (encodeG1Point (toString x, toString y, ''1'')) decodeG1Point
        = Inr (toString x, toString y, ''1'')
    \<and> encodeG2Point ((toString x0, toString x1), (toString y0, toString y1), (''1'', ''0''))
        = Inr (be_bytes 32 x0 @ be_bytes 32 x1 @ be_bytes 32 y0 @ be_bytes 32 y1)
    \<and> length (be_bytes 32 x0 @ be_bytes 32 x1 @ be_bytes 32 y0 @ be_bytes 32 y1) = 128
    \<and> bindE (encodeG2Point ((toString x0, toString x1), (toString y0, toString y1), (''1'', ''0'')))
          decodeG2Point
        = Inr ((toString x0, toString x1), (toString y0, toString y1), (''1'', ''0''))"
proof -
  have g1: "encodeG1Point (toString x, toString y, ''1'') = Inr (be_bytes 32 x @ be_bytes 32 y)"
    using assms by (simp add: encodeG1Point_toString)
  have d1: "decodeG1Point (be_bytes 32 x @ be_bytes 32 y) = Inr (toString x, toString y, ''1'')"
    using assms by (simp only: decodeG1Point_be) simp
  have g2: "encodeG2Point ((toString x0, toString x1), (toString y0, toString y1), (''1'', ''0''))
        = Inr (be_bytes 32 x0 @ be_bytes 32 x1 @ be_bytes 32 y0 @ be_bytes 32 y1)"
    using assms by (simp add: encodeG2Point_toString)
  have d2: "decodeG2Point (be_bytes 32 x0 @ be_bytes 32 x1 @ be_bytes 32 y0 @ be_bytes 32 y1)
        = Inr ((toString x0, toString x1), (toString y0, toString y1), (''1'', ''0''))"
    using assms by (simp only: decodeG2Point_be) simp
  have l1: "length (be_bytes 32 x @ be_bytes 32 y) = 64"
    by simp
  have l2: "length (be_bytes 32 x0 @ be_bytes 32 x1 @ be_bytes 32 y0 @ be_bytes 32 y1) = 128"
    by simp
  have r1: "bindE (encodeG1Point (toString x, toString y, ''1'')) decodeG1Point
        = Inr (toString x, toString y, ''1'')"
    by (simp only: g1 bindE_def sum.case d1)
  have r2: "bindE (encodeG2Point ((toString x0, toString x1), (toString y0, toString y1), (''1'', ''0'')))
          decodeG2Point
        = Inr ((toString x0, toString x1), (toString y0, toString y1), (''1'', ''0''))"
    by (simp only: g2 bindE_def sum.case d2)
  from g1 l1 r1 g2 l2 r2 show ?thesis
    by blast
qed

theorem point_roundtrip_witness:
  "bindE (encodeG1Point (''7'', ''300'', ''1'')) decodeG1Point = Inr (''7'', ''300'', ''1'')
   \<and> bindE (encodeG2Point ((''1'', ''2''), (''3'', ''400''), (''1'', ''0''))) decodeG2Point
        = Inr ((''1'', ''2''), (''3'', ''400''), (''1'', ''0''))"
proof -
  have s7: "toString 7 = ''7''" by code_simp
  have s300: "toString 300 = ''300''" by code_simp
  have s1: "toString 1 = ''1''" by code_simp
  have s2: "toString 2 = ''2''" by code_simp
  have s3: "toString 3 = ''3''" by code_simp
  have s400: "toString 400 = ''400''" by code_simp
  note s = s7 s300 s1 s2 s3 s400
  have h: "(0::int) \<le> 7 \<and> (7::int) < 2 ^ 256" "(0::int) \<le> 300 \<and> (300::int) < 2 ^ 256"
    "(0::int) \<le> 1 \<and> (1::int) < 2 ^ 256" "(0::int) \<le> 2 \<and> (2::int) < 2 ^ 256"
    "(0::int) \<le> 3 \<and> (3::int) < 2 ^ 256" "(0::int) \<le> 400 \<and> (400::int) < 2 ^ 256"
    by simp_all
  from point_roundtrip [OF h] show ?thesis
    unfolding s by blast
qed

text \<open>
  C4, as the code has it. The scalar codec has no failing case: \<open>bigIntToBytes\<close>
  returns 32 bytes for every integer, the big-endian bytes of the value modulo
  \<open>2 ^ 256\<close>, and \<open>bytesToBigInt\<close> returns the big-endian value of a buffer of any
  length.
\<close>

theorem scalar_codec_total:
  "length (bigIntToBytes v) = 32
   \<and> bigIntToBytes v = be_bytes 32 v
   \<and> bytesToBigInt (bigIntToBytes v) = v mod 2 ^ 256
   \<and> bytesToBigInt [] = 0
   \<and> bytesToBigInt (bs @ [b]) = bytesToBigInt bs * 256 + uint b"
proof -
  have "bytesToBigInt [] = 0"
    by (simp add: bytesToBigInt_def)
  then show ?thesis
    using bigIntToBytes_be [of v] length_bigIntToBytes [of v]
      bytesToBigInt_bigIntToBytes [of v] bytesToBigInt_snoc [of bs b]
    by simp
qed

text \<open>
  C4, as the claim states it, fails: \<open>2 ^ 256\<close> and \<open>- 1\<close> are encoded (as the bytes
  of \<open>0\<close> and of \<open>2 ^ 256 - 1\<close>) and buffers of 1 and of 33 bytes are decoded; none of
  the four calls ends in an error.
\<close>

theorem scalar_codec_counterexample:
  "bigIntToBytes (2 ^ 256) = replicate 32 0
   \<and> bigIntToBytes (- 1) = replicate 32 255
   \<and> bytesToBigInt [1] = 1
   \<and> bytesToBigInt (replicate 33 0) = 0"
  by code_simp

text \<open>
  C5. \<open>verifyProofLocally\<close> never throws: it returns a boolean for every proof, all
  public inputs, every state and every outside world; when anything inside its \<open>try\<close>
  block throws, the answer is false, and otherwise it is the verifier's answer.
\<close>

theorem verifyProofLocally_total:
  "(\<exists>b. fst (verifyProofLocally env prf inp st) = Inr b)
   \<and> (\<forall>e. fst (verifyProofLocally_try env prf inp st) = Inl e
          \<longrightarrow> fst (verifyProofLocally env prf inp st) = Inr False)
   \<and> (\<forall>b. fst (verifyProofLocally_try env prf inp st) = Inr b
          \<longrightarrow> fst (verifyProofLocally env prf inp st) = Inr b)"
  by (cases "verifyProofLocally_try env prf inp st"; cases "fst (verifyProofLocally_try env prf inp st)")
    (auto simp: verifyProofLocally_def tryCatch_def)

theorem verifyProofLocally_total_witness:
  "fst (verifyProofLocally_try sampleEnv emptyProof samplePublicInputs sampleState)
     = Inl (JSError ''TypeError'' ''Cannot convert undefined to a BigInt'')
   \<and> fst (verifyProofLocally sampleEnv emptyProof samplePublicInputs sampleState) = Inr False"
proof -
  have t: "fst (verifyProofLocally_try sampleEnv emptyProof samplePublicInputs sampleState)
     = Inl (JSError ''TypeError'' ''Cannot convert undefined to a BigInt'')"
    by (simp add: verifyProofLocally_try_def emptyProof_def decodeG1Point_def slice_def
        bytes32ToBigInt_eq bindE_def)
  with verifyProofLocally_total [of sampleEnv emptyProof samplePublicInputs sampleState]
  show ?thesis by simp
qed




text \<open>
  C7, as the code has it. When no blinding factor is stored under the key of the
  request, \<open>processPayment\<close> throws a plain \<open>Error\<close> with the message
  \<open>Blinding factor not found. Was employee added via this SDK?\<close> and leaves the
  state as it was: nothing was read from the ledger, no proof was generated, nothing
  was submitted, and no secret was made up.
\<close>

theorem processPayment_missing_secret:
  "blindingFactors st (storeKey (pay_companyId params) (pay_employeeAddress params)) = None \<Longrightarrow>
     processPayment env params st =
       (Inl (JSError ''Error'' ''Blinding factor not found. Was employee added via this SDK?''), st)"
  by (simp add: processPayment_def)

theorem processPayment_missing_secret_witness:
  "processPayment sampleEnv carolPayment sampleState =
     (Inl (JSError ''Error'' ''Blinding factor not found. Was employee added via this SDK?''),
      sampleState)"
  using processPayment_missing_secret [of sampleState carolPayment sampleEnv]
  by (simp add: sampleState_def carolPayment_def storeKey_def)

text \<open>
  C7, as the claim states it, fails on the kind of the error: for an employee without a
  stored blinding factor the error thrown has the name \<open>Error\<close>; it is not a
  \<open>SecretNotFoundError\<close>.
\<close>

theorem processPayment_error_name_counterexample:
  "errorName (projl (fst (processPayment sampleEnv carolPayment sampleState))) = ''Error''
   \<and> (\<nexists>m. fst (processPayment sampleEnv carolPayment sampleState)
            = Inl (JSError ''SecretNotFoundError'' m))"
  by (simp add: processPayment_def sampleState_def carolPayment_def storeKey_def)

text \<open>
  C8, as the code has it. \<open>deactivateEmployee\<close> deletes the entry under
  \<open>companyId:employeeAddress\<close> as its last step: the entry is gone when the call
  returns and is still there when the ledger call throws. \<open>updateSalary\<close> with an
  integer \<open>newSalary\<close> puts the blinding factor it has just drawn from the random
  generator under that key, before its ledger call and whatever that call's outcome;
  with a \<open>newSalary\<close> that is not an integer it throws a \<open>RangeError\<close> and leaves the
  store as it was. Both leave the entry of every other key unchanged.
\<close>

theorem blindingFactors_lifecycle:
  "blindingFactors (snd (deactivateEmployee env dp st)) =
     (case fst (deactivateEmployee env dp st) of
        Inl e \<Rightarrow> blindingFactors st
      | Inr u \<Rightarrow>
          (blindingFactors st)
            (storeKey (deact_companyId dp) (deact_employeeAddress dp) := None))
   \<and> (\<forall>k. k \<noteq> storeKey (deact_companyId dp) (deact_employeeAddress dp) \<longrightarrow>
          blindingFactors (snd (deactivateEmployee env dp st)) k = blindingFactors st k)
   \<and> blindingFactors (snd (updateSalary env up st)) =
        (case upd_newSalary up of
           Integral v \<Rightarrow>
             (blindingFactors st)(storeKey (upd_companyId up) (upd_employeeAddress up)
                \<mapsto> fst (generateBlindingFactor env st))
         | NonIntegral \<Rightarrow> blindingFactors st)
   \<and> fst (generateBlindingFactor env st) = randomBytes env (events st)
   \<and> (upd_newSalary up = NonIntegral \<longrightarrow>
         fst (updateSalary env up st) =
           Inl (JSError ''RangeError''
                  ''The number cannot be converted to a BigInt because it is not an integer''))
   \<and> (\<forall>k. k \<noteq> storeKey (upd_companyId up) (upd_employeeAddress up) \<longrightarrow>
          blindingFactors (snd (updateSalary env up st)) k = blindingFactors st k)"
proof (intro conjI allI impI)
  show "blindingFactors (snd (deactivateEmployee env dp st)) =
     (case fst (deactivateEmployee env dp st) of
        Inl e \<Rightarrow> blindingFactors st
      | Inr u \<Rightarrow>
          (blindingFactors st)
            (storeKey (deact_companyId dp) (deact_employeeAddress dp) := None))"
    by (rule deactivateEmployee_store)
  show "blindingFactors (snd (updateSalary env up st)) =
        (case upd_newSalary up of
           Integral v \<Rightarrow>
             (blindingFactors st)(storeKey (upd_companyId up) (upd_employeeAddress up)
                \<mapsto> fst (generateBlindingFactor env st))
         | NonIntegral \<Rightarrow> blindingFactors st)"
    by (rule updateSalary_store)
  show "fst (generateBlindingFactor env st) = randomBytes env (events st)"
    by (simp add: generateBlindingFactor_def)
  show "fst (updateSalary env up st) =
           Inl (JSError ''RangeError''
                  ''The number cannot be converted to a BigInt because it is not an integer'')"
    if "upd_newSalary up = NonIntegral"
    using that by (rule updateSalary_NonIntegral)
  show "blindingFactors (snd (deactivateEmployee env dp st)) k = blindingFactors st k"
    if "k \<noteq> storeKey (deact_companyId dp) (deact_employeeAddress dp)" for k
    using that
    by (cases "fst (deactivateEmployee env dp st)") (simp_all add: deactivateEmployee_store)
  show "blindingFactors (snd (updateSalary env up st)) k = blindingFactors st k"
    if "k \<noteq> storeKey (upd_companyId up) (upd_employeeAddress up)" for k
    using that
    by (cases "upd_newSalary up") (simp_all add: updateSalary_store)
qed

theorem blindingFactors_lifecycle_witness:
  "blindingFactors (snd (deactivateEmployee sampleEnv aliceDeactivation sampleState))
        ''ACME:GBOB'' = Some (replicate 32 2)
   \<and> blindingFactors (snd (updateSalary sampleEnv aliceRaise sampleState))
        ''ACME:GALICE'' = Some (replicate 32 7)
   \<and> blindingFactors (snd (updateSalary sampleEnv aliceRaise sampleState))
        ''ACME:GBOB'' = Some (replicate 32 2)
   \<and> fst (updateSalary sampleEnv fractionalRaise sampleState) =
        Inl (JSError ''RangeError''
               ''The number cannot be converted to a BigInt because it is not an integer'')"
proof -
  have k: "storeKey (deact_companyId aliceDeactivation) (deact_employeeAddress aliceDeactivation)
             = ''ACME:GALICE''"
    "storeKey (upd_companyId aliceRaise) (upd_employeeAddress aliceRaise) = ''ACME:GALICE''"
    by (simp_all add: storeKey_def aliceDeactivation_def aliceRaise_def)
  have r: "randomBytes sampleEnv (events sampleState) = replicate 32 7"
    by (simp add: sampleEnv_def sampleState_def)
  have b: "blindingFactors sampleState ''ACME:GBOB'' = Some (replicate 32 2)"
    by (simp add: sampleState_def)
  have i: "upd_newSalary aliceRaise = Integral 600000"
    "upd_newSalary fractionalRaise = NonIntegral"
    by (simp_all add: aliceRaise_def fractionalRaise_def)
  from blindingFactors_lifecycle [of sampleEnv aliceDeactivation sampleState aliceRaise]
    blindingFactors_lifecycle [of sampleEnv aliceDeactivation sampleState fractionalRaise]
  show ?thesis
    by (simp add: k r b i)
qed

text \<open>
  C8, as the claim states it, fails: \<open>deactivateEmployee\<close> ends in the \<open>TypeError\<close>
  thrown at signing and the entry of the employee is still stored; \<open>updateSalary\<close>
  with a \<open>newSalary\<close> that is not an integer ends in a \<open>RangeError\<close> and the entry is
  the old one, not a fresh blinding factor.
\<close>

theorem blindingFactors_lifecycle_counterexample:
  "map_sum errorName (\<lambda>u. ())
       (fst (deactivateEmployee sampleEnv aliceDeactivation sampleState)) = Inl ''TypeError''
   \<and> blindingFactors (snd (deactivateEmployee sampleEnv aliceDeactivation sampleState))
        ''ACME:GALICE'' = Some (replicate 32 1)
   \<and> map_sum errorName (\<lambda>u. ())
       (fst (updateSalary sampleEnv fractionalRaise sampleState)) = Inl ''RangeError''
   \<and> blindingFactors (snd (updateSalary sampleEnv fractionalRaise sampleState))
        ''ACME:GALICE'' = Some (replicate 32 1)"
  by (simp add: deactivateEmployee_def updateSalary_def generateBlindingFactor_def
      generateCommitment_number_def BigInt_number_def bindA_def liftE_def newContract_def
      contract_call_def buildTransaction_def submitTransaction_def record_event_def Let_def
      sampleEnv_def sampleState_def signingError_def aliceDeactivation_def fractionalRaise_def
      split: prod.splits)

text \<open>
  C9. \<open>processPayroll\<close> never throws. Its results are, in order, one for each
  employee of the list that has a stored blinding factor, so an employee without one
  adds no element: the loop warns and goes on with the rest. When \<open>processPayment\<close>
  throws for an employee, the result for that employee has \<open>success\<close> false and the
  error as a string, and the results of the remaining employees follow it.
\<close>

theorem processPayroll_contains_failures:
  "(\<exists>results st'. processPayroll env params st = (Inr results, st'))
   \<and> (\<forall>results. fst (processPayroll env params st) = Inr results \<longrightarrow>
         map res_employeeAddress results =
           filter (\<lambda>a. blindingFactors st (storeKey (roll_companyId params) a) \<noteq> None)
             (case roll_employees params of Some es \<Rightarrow> es | None \<Rightarrow> []))
   \<and> (blindingFactors st (storeKey (roll_companyId params) a) = None \<longrightarrow>
         fst (processPayroll env (params\<lparr>roll_employees := Some (a # rest)\<rparr>) st) =
         fst (processPayroll env (params\<lparr>roll_employees := Some rest\<rparr>)
                (record_event (ConsoleWarn (''Skipping '' @ a @ '': no blinding factor'')) st)))
   \<and> (\<forall>bf e st'.
         blindingFactors st (storeKey (roll_companyId params) a) = Some bf
         \<and> processPayment env
              \<lparr>pay_companyId = roll_companyId params, pay_employeeAddress = a,
               pay_amount = 0, pay_period = roll_period params\<rparr> st = (Inl e, st') \<longrightarrow>
         fst (processPayroll env (params\<lparr>roll_employees := Some (a # rest)\<rparr>) st) =
         map_sum id
           ((#) \<lparr>res_success = False, res_transactionHash = None,
                 res_error = Some (errorToString e), res_period = roll_period params,
                 res_employeeAddress = a\<rparr>)
           (fst (processPayroll env (params\<lparr>roll_employees := Some rest\<rparr>) st')))"
proof -
  have total: "\<exists>results st'. processPayroll env params st = (Inr results, st')"
    by (simp add: processPayroll_eq)
  have addresses: "map res_employeeAddress results =
           filter (\<lambda>a. blindingFactors st (storeKey (roll_companyId params) a) \<noteq> None)
             (case roll_employees params of Some es \<Rightarrow> es | None \<Rightarrow> [])"
    if "fst (processPayroll env params st) = Inr results" for results
  proof -
    from that have "results = fst (processPayroll_loop env params
           (case roll_employees params of Some es \<Rightarrow> es | None \<Rightarrow> []) [] st)"
      by (simp add: processPayroll_eq)
    then show ?thesis
      by (simp only: processPayroll_loop_addresses)
  qed
  have skip: "fst (processPayroll env (params\<lparr>roll_employees := Some (a # rest)\<rparr>) st) =
         fst (processPayroll env (params\<lparr>roll_employees := Some rest\<rparr>)
                (record_event (ConsoleWarn (''Skipping '' @ a @ '': no blinding factor'')) st))"
    if "blindingFactors st (storeKey (roll_companyId params) a) = None"
    using that by (simp add: processPayroll_eq processPayroll_loop_params)
  have failed: "fst (processPayroll env (params\<lparr>roll_employees := Some (a # rest)\<rparr>) st) =
         map_sum id
           ((#) \<lparr>res_success = False, res_transactionHash = None,
                 res_error = Some (errorToString e), res_period = roll_period params,
                 res_employeeAddress = a\<rparr>)
           (fst (processPayroll env (params\<lparr>roll_employees := Some rest\<rparr>) st'))"
    if "blindingFactors st (storeKey (roll_companyId params) a) = Some bf
         \<and> processPayment env
              \<lparr>pay_companyId = roll_companyId params, pay_employeeAddress = a,
               pay_amount = 0, pay_period = roll_period params\<rparr> st = (Inl e, st')"
    for bf e st'
    using that processPayroll_loop_acc [of env params rest "[x]" st' for x]
    by (simp add: processPayroll_eq processPayroll_loop_params payOne_eq)
  show ?thesis
  proof (intro conjI allI impI)
    show "\<exists>results st'. processPayroll env params st = (Inr results, st')"
      by (rule total)
  qed (rule addresses skip failed, assumption)+
qed

theorem processPayroll_contains_failures_witness:
  "\<exists>results. fst (processPayroll sampleEnv sampleRoll sampleState) = Inr results
      \<and> map res_employeeAddress results = [''GALICE'', ''GBOB'']"
proof -
  note t = processPayroll_contains_failures [of sampleEnv sampleRoll sampleState]
  from t [THEN conjunct1] obtain results st'
    where "processPayroll sampleEnv sampleRoll sampleState = (Inr results, st')"
    by (elim exE)
  then have r: "fst (processPayroll sampleEnv sampleRoll sampleState) = Inr results"
    by simp
  from t [THEN conjunct2, THEN conjunct1, rule_format, OF r]
  have "map res_employeeAddress results = [''GALICE'', ''GBOB'']"
    by (simp add: sampleRoll_def sampleState_def storeKey_def)
  with r show ?thesis
    by (intro exI [of _ results] conjI)
qed

text \<open>
  C10. \<open>'employeeList'\<close> is a value of the type \<open>AuditScope\<close>, and
  \<open>generateViewKey\<close> with a scope other than \<open>'full'\<close>, \<open>'aggregate'\<close> and
  \<open>'timeRange'\<close> throws with the state unchanged: no call has left the SDK, so no key
  was created. When the contract object can be built, the error is
  \<open>Unknown scope: \<close> followed by the scope.
\<close>

theorem generateViewKey_unknown_scope:
  "''employeeList'' \<in> set AuditScope
   \<and> (vk_scope params \<notin> {''full'', ''aggregate'', ''timeRange''} \<longrightarrow>
        (\<exists>e. generateViewKey env params st = (Inl e, st))
        \<and> (newContract_throws env (executorAddress env) = None \<longrightarrow>
             generateViewKey env params st =
               (Inl (JSError ''Error'' (''Unknown scope: '' @ vk_scope params)), st)))"
  by (auto simp: AuditScope_def generateViewKey_def bindA_def liftE_def newContract_def
      mapAuditScope_def split: option.splits)

theorem generateViewKey_unknown_scope_witness:
  "generateViewKey sampleEnv employeeListRequest sampleState =
     (Inl (JSError ''Error'' ''Unknown scope: employeeList''), sampleState)"
  using generateViewKey_unknown_scope [of employeeListRequest sampleEnv sampleState]
  by (simp add: employeeListRequest_def sampleEnv_def)

end
